theory Spec2Isabelle
  imports Complex_Main
begin

section \<open>Monte-Carlo PSF rasterisation (deeplens/monte\_carlo.py)\<close>

text \<open>
  The two functions of \<^verbatim>\<open>monte_carlo.py\<close>, \<^verbatim>\<open>assign_points_to_pixels\<close> (the splatter)
  and \<^verbatim>\<open>forward_integral\<close> (the integrator), are embedded as HOL functions.

  Conventions of the embedding:
  \<^item> tensor elements are real numbers: rounding of the floating-point arithmetic is not
    part of the model, and neither is any property that rests on it (what the margin
    \<open>0.01 * ps\<close> of line 37 does against round-off at the border of the window is one).
    Where the float program would produce an infinity or a NaN (a tensor divided by zero)
    and then convert it to an integer index, the model stops with the error value
    \<open>NonFinite\<close>;
  \<^item> a 1-D tensor is a list, a tensor of shape \<open>[spp, 2]\<close> a list of pairs, a tensor of
    shape \<open>[spp, N]\<close> a list of \<open>spp\<close> rows of length \<open>N\<close>, the \<open>ks \<times> ks\<close> grid a list
    of rows;
  \<^item> every exception is a value of type \<open>error\<close>, results are \<open>error + 'a\<close>;
  \<^item> Python integers (\<open>ks\<close>, lattice indices) are \<open>int\<close>.
\<close>

subsection \<open>Errors and results\<close>

datatype error =
    ZeroDivisionError   \<comment> \<open>Python: division of two numbers by zero\<close>
  | NegativeDimension   \<comment> \<open>\<open>torch.zeros\<close> with a negative size\<close>
  | NonFinite           \<comment> \<open>a tensor element left the real numbers (inf or NaN)\<close>
  | ShapeMismatch       \<comment> \<open>operands that cannot be broadcast together\<close>
  | TypeError           \<comment> \<open>\<open>1j * None\<close>\<close>
  | IndexOutOfRange     \<comment> \<open>\<open>index_put_\<close> with an index outside \<open>[-size, size - 1]\<close>\<close>
  | EmptyStack          \<comment> \<open>\<open>torch.stack\<close> of an empty list\<close>

definition and_then :: "error + 'a \<Rightarrow> ('a \<Rightarrow> error + 'b) \<Rightarrow> error + 'b" where
  "and_then r f = (case r of Inl e \<Rightarrow> Inl e | Inr v \<Rightarrow> f v)"

type_synonym point = "real \<times> real"

datatype grid = RealGrid "real list list" | ComplexGrid "complex list list"

subsection \<open>Tensor primitives\<close>

text \<open>\<^verbatim>\<open>torch.zeros(ks, ks)\<close>, for \<open>ks \<ge> 0\<close> (a negative size is refused by the caller).\<close>

definition zeros :: "int \<Rightarrow> 'a::zero list list" where
  "zeros ks = replicate (nat ks) (replicate (nat ks) 0)"

text \<open>
  Elementwise product of two 1-D tensors with broadcasting: equal lengths multiply
  pointwise, a tensor of length 1 is stretched to the other's length.
\<close>

definition bmul :: "'a::times list \<Rightarrow> 'a list \<Rightarrow> error + 'a list" where
  "bmul xs ys =
     (if length xs = length ys then Inr (map2 (*) xs ys)
      else if length xs = 1 then Inr (map (\<lambda>y. hd xs * y) ys)
      else if length ys = 1 then Inr (map (\<lambda>x. x * hd ys) xs)
      else Inl ShapeMismatch)"

text \<open>The values of \<open>index_put\<close> are broadcast to the shape \<open>[n]\<close> of the index tensors.\<close>

definition broadcast_to :: "nat \<Rightarrow> 'a list \<Rightarrow> error + 'a list" where
  "broadcast_to n vs =
     (if length vs = n then Inr vs
      else if length vs = 1 then Inr (replicate n (hd vs))
      else Inl ShapeMismatch)"

text \<open>
  An index into a dimension of size \<open>n\<close>: \<open>0 .. n - 1\<close> as it is, \<open>-n .. -1\<close> counted
  from the end, anything else out of range.
\<close>

definition wrap_index :: "nat \<Rightarrow> int \<Rightarrow> nat option" where
  "wrap_index n i =
     (if 0 \<le> i \<and> i < int n then Some (nat i)
      else if - int n \<le> i \<and> i < 0 then Some (nat (i + int n))
      else None)"

text \<open>
  \<^verbatim>\<open>grid.index_put_((rows, cols), values, accumulate=True)\<close>: every value is added to
  the cell its index pair names; an index pair that occurs twice receives both values.
\<close>

fun accumulate :: "'a::plus list list \<Rightarrow> (int \<times> int) list \<Rightarrow> 'a list \<Rightarrow> error + 'a list list" where
  "accumulate g [] vs = Inr g"
| "accumulate g ((r, c) # idx) [] = Inl ShapeMismatch"
| "accumulate g ((r, c) # idx) (v # vs) =
     (case wrap_index (length g) r of
        None \<Rightarrow> Inl IndexOutOfRange
      | Some i \<Rightarrow>
          (case wrap_index (length (g ! i)) c of
             None \<Rightarrow> Inl IndexOutOfRange
           | Some j \<Rightarrow> accumulate (g[i := (g ! i)[j := g ! i ! j + v]]) idx vs))"

definition index_put :: "'a::plus list list \<Rightarrow> (int \<times> int) list \<Rightarrow> 'a list \<Rightarrow> error + 'a list list" where
  "index_put g idx vals = and_then (broadcast_to (length idx) vals) (accumulate g idx)"

subsection \<open>The splatter: \<^verbatim>\<open>assign_points_to_pixels\<close>\<close>

text \<open>
  Lines 83--85: column 0 of \<open>points_normalized\<close> is the row coordinate (from \<open>y\<close>,
  flipped), column 1 the column coordinate (from \<open>x\<close>).
\<close>

definition normalize_points :: "point list \<Rightarrow> real \<times> real \<Rightarrow> real \<times> real \<Rightarrow> point list" where
  "normalize_points points x_range y_range =
     (case x_range of (x_min, x_max) \<Rightarrow> case y_range of (y_min, y_max) \<Rightarrow>
        map (\<lambda>(px, py). ((py - y_max) / (y_min - y_max), (px - x_min) / (x_max - x_min))) points)"

definition pixel_indices_float :: "point list \<Rightarrow> int \<Rightarrow> point list" where
  "pixel_indices_float points_normalized ks =
     map (\<lambda>(r, c). (r * of_int (ks - 1), c * of_int (ks - 1))) points_normalized"

definition w_b :: "point list \<Rightarrow> real list" where
  "w_b pif = map (\<lambda>(r, c). r - of_int \<lfloor>r\<rfloor>) pif"

definition w_r :: "point list \<Rightarrow> real list" where
  "w_r pif = map (\<lambda>(r, c). c - of_int \<lfloor>c\<rfloor>) pif"

definition pixel_indices_tl :: "point list \<Rightarrow> (int \<times> int) list" where
  "pixel_indices_tl pif = map (\<lambda>(r, c). (\<lfloor>r\<rfloor>, \<lfloor>c\<rfloor>)) pif"

definition pixel_indices_tr :: "point list \<Rightarrow> (int \<times> int) list" where
  "pixel_indices_tr pif = map (\<lambda>(r, c). (\<lfloor>r\<rfloor>, \<lfloor>c + 1\<rfloor>)) pif"

definition pixel_indices_bl :: "point list \<Rightarrow> (int \<times> int) list" where
  "pixel_indices_bl pif = map (\<lambda>(r, c). (\<lfloor>r + 1\<rfloor>, \<lfloor>c\<rfloor>)) pif"

definition pixel_indices_br :: "point list \<Rightarrow> (int \<times> int) list" where
  "pixel_indices_br pif = map (\<lambda>(i, j). (i + 1, j + 1)) (pixel_indices_tl pif)"

text \<open>\<^verbatim>\<open>1 - w\<close> on a tensor.\<close>

definition one_minus :: "real list \<Rightarrow> real list" where
  "one_minus ws = map (\<lambda>w. 1 - w) ws"

text \<open>Lines 108--112: the incoherent, interpolated accumulation.\<close>

definition splat_incoherent :: "int \<Rightarrow> point list \<Rightarrow> real list \<Rightarrow> error + grid" where
  "splat_incoherent ks pif ra =
     and_then (and_then (bmul (one_minus (w_b pif)) (one_minus (w_r pif))) (\<lambda>s. bmul s ra)) (\<lambda>v_tl.
     and_then (index_put (zeros ks) (pixel_indices_tl pif) v_tl) (\<lambda>g1.
     and_then (and_then (bmul (one_minus (w_b pif)) (w_r pif)) (\<lambda>s. bmul s ra)) (\<lambda>v_tr.
     and_then (index_put g1 (pixel_indices_tr pif) v_tr) (\<lambda>g2.
     and_then (and_then (bmul (w_b pif) (one_minus (w_r pif))) (\<lambda>s. bmul s ra)) (\<lambda>v_bl.
     and_then (index_put g2 (pixel_indices_bl pif) v_bl) (\<lambda>g3.
     and_then (and_then (bmul (w_b pif) (w_r pif)) (\<lambda>s. bmul s ra)) (\<lambda>v_br.
     and_then (index_put g3 (pixel_indices_br pif) v_br) (\<lambda>g4.
     Inr (RealGrid g4)))))))))"

text \<open>
  Lines 101--105: the coherent accumulation; every share is multiplied by
  \<^verbatim>\<open>torch.exp(1j*phase)\<close>, which is \<open>cis phase\<close>. With \<open>phase = None\<close> the product
  \<^verbatim>\<open>1j*phase\<close> raises, after the real factors to its left have been multiplied.
\<close>

definition with_phase :: "real list \<Rightarrow> real list option \<Rightarrow> error + complex list" where
  "with_phase v phase =
     (case phase of
        None \<Rightarrow> Inl TypeError
      | Some ph \<Rightarrow> bmul (map complex_of_real v) (map cis ph))"

text \<open>
  \<open>cis\<close> is defined by power series and has no code equations; the phase factor is
  kept out of the evaluation of concrete calls, none of which is coherent.
\<close>

declare with_phase_def [code del]

definition splat_coherent :: "int \<Rightarrow> point list \<Rightarrow> real list \<Rightarrow> real list option \<Rightarrow> error + grid" where
  "splat_coherent ks pif ra phase =
     and_then (and_then (and_then (bmul (one_minus (w_b pif)) (one_minus (w_r pif))) (\<lambda>s. bmul s ra))
                 (\<lambda>v. with_phase v phase)) (\<lambda>v_tl.
     and_then (index_put (zeros ks) (pixel_indices_tl pif) v_tl) (\<lambda>g1.
     and_then (and_then (and_then (bmul (one_minus (w_b pif)) (w_r pif)) (\<lambda>s. bmul s ra))
                 (\<lambda>v. with_phase v phase)) (\<lambda>v_tr.
     and_then (index_put g1 (pixel_indices_tr pif) v_tr) (\<lambda>g2.
     and_then (and_then (and_then (bmul (w_b pif) (one_minus (w_r pif))) (\<lambda>s. bmul s ra))
                 (\<lambda>v. with_phase v phase)) (\<lambda>v_bl.
     and_then (index_put g2 (pixel_indices_bl pif) v_bl) (\<lambda>g3.
     and_then (and_then (and_then (bmul (w_b pif) (w_r pif)) (\<lambda>s. bmul s ra))
                 (\<lambda>v. with_phase v phase)) (\<lambda>v_br.
     and_then (index_put g3 (pixel_indices_br pif) v_br) (\<lambda>g4.
     Inr (ComplexGrid g4)))))))))"

text \<open>Lines 115--119: without interpolation the whole weight goes to the floor cell.\<close>

definition splat_nearest :: "int \<Rightarrow> point list \<Rightarrow> real list \<Rightarrow> error + grid" where
  "splat_nearest ks pif ra =
     and_then (index_put (zeros ks) (pixel_indices_tl pif) ra) (\<lambda>g. Inr (RealGrid g))"

text \<open>
  The function itself. The ranges are pairs of Python numbers (as \<^verbatim>\<open>forward_integral\<close>
  passes them), so the pixel size of line 80 raises for \<open>ks = 1\<close>. The divisions of
  lines 84--85 are tensor divisions: they raise nothing, and a zero divisor makes every
  element inf or NaN. Nothing between line 80 and the allocation of the grid raises, and
  every branch allocates the grid before it accumulates, so the refusal of a negative
  size is tested once, ahead of the branches. The arguments \<open>d\<close>, \<open>obliq\<close> and \<open>wvln\<close>
  are accepted and not read.
\<close>

definition assign_points_to_pixels ::
  "point list \<Rightarrow> int \<Rightarrow> real \<times> real \<Rightarrow> real \<times> real \<Rightarrow> real list \<Rightarrow> bool \<Rightarrow> bool \<Rightarrow>
   real list option \<Rightarrow> (real \<times> real \<times> real) list option \<Rightarrow> real list option \<Rightarrow> real \<Rightarrow> error + grid" where
  "assign_points_to_pixels points ks x_range y_range ra interpolate coherent phase d obliq wvln =
     (case x_range of (x_min, x_max) \<Rightarrow> case y_range of (y_min, y_max) \<Rightarrow>
        if ks - 1 = 0 then Inl ZeroDivisionError
        else if ks < 0 then Inl NegativeDimension
        else if points \<noteq> [] \<and> (y_min - y_max = 0 \<or> x_max - x_min = 0) then Inl NonFinite
        else
          let pif = pixel_indices_float (normalize_points points x_range y_range) ks
          in if interpolate then
               (if coherent then splat_coherent ks pif ra phase
                else splat_incoherent ks pif ra)
             else splat_nearest ks pif ra)"

subsection \<open>The integrator: \<^verbatim>\<open>forward_integral\<close>\<close>

text \<open>
  One traced ray: origin \<open>o\<close>, direction \<open>d\<close> and weight \<open>ra\<close>. The class \<^verbatim>\<open>Ray\<close> holds
  the three as tensors of equal leading shape; the model keeps the three values of one
  ray together. A bundle is either the single-point layout (\<open>ray.o\<close> of shape
  \<open>[spp, 3]\<close>) or the multi-point layout (\<open>ray.o\<close> of shape \<open>[spp, N, 3]\<close>: \<open>spp\<close> rows
  of \<open>N\<close> rays, with \<open>N\<close> kept beside them since it is known even when \<open>spp = 0\<close>).
\<close>

record ray_sample =
  ray_o :: "real \<times> real \<times> real"
  ray_d :: "real \<times> real \<times> real"
  ray_ra :: real

datatype ray = SinglePoint "ray_sample list" | MultiPoint nat "ray_sample list list"

definition well_shaped :: "ray \<Rightarrow> bool" where
  "well_shaped ray =
     (case ray of SinglePoint samples \<Rightarrow> True
      | MultiPoint N rows \<Rightarrow> list_all (\<lambda>row. length row = N) rows)"

datatype psf = Psf grid | PsfStack "grid list"

text \<open>Line 24: \<^verbatim>\<open>- ray.o[..., :2]\<close>.\<close>

definition flip_point :: "ray_sample \<Rightarrow> point" where
  "flip_point s = (case ray_o s of (x, y, z) \<Rightarrow> (- x, - y))"

text \<open>Lines 42 and 51: \<^verbatim>\<open>ray.d[..., 2]**2\<close>.\<close>

definition obliquity :: "ray_sample \<Rightarrow> real" where
  "obliquity s = (case ray_d s of (dx, dy, dz) \<Rightarrow> dz ^ 2)"

text \<open>Line 25; \<^verbatim>\<open>ks / 2\<close> is Python's true division.\<close>

definition psf_range :: "real \<Rightarrow> int \<Rightarrow> real \<times> real" where
  "psf_range ps ks = ((- of_int ks / 2 + 0.5) * ps, (of_int ks / 2 - 0.5) * ps)"

definition psub :: "point \<Rightarrow> point \<Rightarrow> point" where
  "psub p c = (fst p - fst c, snd p - snd c)"

definition pscale :: "point \<Rightarrow> real \<Rightarrow> point" where
  "pscale p a = (fst p * a, snd p * a)"

text \<open>
  Line 37, for one ray: the weight times the two comparisons (a boolean multiplies as
  0 or 1).
\<close>

definition mask_ra :: "real \<Rightarrow> int \<Rightarrow> real \<Rightarrow> point \<Rightarrow> real" where
  "mask_ra ps ks a p =
     a * of_bool (\<bar>fst p\<bar> < snd (psf_range ps ks) - 0.01 * ps)
       * of_bool (\<bar>snd p\<bar> < snd (psf_range ps ks) - 0.01 * ps)"

subsubsection \<open>Single-point layout\<close>

text \<open>
  Line 30 on tensors of shape \<open>[spp, 2]\<close> and \<open>[spp]\<close>. \<open>EPSILON\<close> is imported from
  \<^verbatim>\<open>.basics\<close>, which is not among the sources at hand: it is a parameter of the model.
\<close>

definition pointc_single :: "real \<Rightarrow> point list \<Rightarrow> real list \<Rightarrow> point" where
  "pointc_single EPSILON points ras =
     (let weighted = map2 pscale points ras;
          den = sum_list ras + EPSILON
      in (sum_list (map fst weighted) / den, sum_list (map snd weighted) / den))"

text \<open>Lines 28--34: the chosen centre, the centroid or the reference point.\<close>

definition center_single :: "real \<Rightarrow> ray_sample list \<Rightarrow> point option \<Rightarrow> point" where
  "center_single EPSILON samples pointc_ref =
     (case pointc_ref of
        None \<Rightarrow> pointc_single EPSILON (map flip_point samples) (map ray_ra samples)
      | Some c \<Rightarrow> c)"

text \<open>
  Lines 28--38: the shifted points after line 38 and the masked weights of line 37,
  that is, the \<open>points\<close> and \<open>ra\<close> arguments of the splatter.
\<close>

definition splat_input_single :: "real \<Rightarrow> ray_sample list \<Rightarrow> real \<Rightarrow> int \<Rightarrow> point option \<Rightarrow> point list \<times> real list" where
  "splat_input_single EPSILON samples ps ks pointc_ref =
     (let points = map flip_point samples;
          points_shift = map (\<lambda>p. psub p (center_single EPSILON samples pointc_ref)) points;
          ra = map2 (mask_ra ps ks) (map ray_ra samples) points_shift
      in (map2 pscale points_shift ra, ra))"

text \<open>
  The centroid of line 30 is a tensor division: with a zero divisor and at least one
  ray, every shifted point is NaN. The model reports \<open>NonFinite\<close> where the NaN
  arises; the float program would carry it into the splatter, whose own refusals of
  \<open>ks = 1\<close> and \<open>ks < 0\<close> would come before the NaN is turned into an index.
\<close>

definition forward_integral_single :: "real \<Rightarrow> ray_sample list \<Rightarrow> real \<Rightarrow> int \<Rightarrow> point option \<Rightarrow> error + grid" where
  "forward_integral_single EPSILON samples ps ks pointc_ref =
     (if pointc_ref = None \<and> samples \<noteq> [] \<and> sum_list (map ray_ra samples) + EPSILON = 0
      then Inl NonFinite
      else case splat_input_single EPSILON samples ps ks pointc_ref of (points_shift, ra) \<Rightarrow>
        assign_points_to_pixels points_shift ks (psf_range ps ks) (psf_range ps ks) ra
          True False None None (Some (map obliquity samples)) 0.589)"

subsubsection \<open>Multi-point layout\<close>

text \<open>\<^verbatim>\<open>t.sum(0)\<close> of a tensor of shape \<open>[spp, N]\<close>: the rows added up, elementwise.\<close>

definition sum0 :: "nat \<Rightarrow> real list list \<Rightarrow> real list" where
  "sum0 N rows = foldr (map2 (+)) rows (replicate N 0)"

text \<open>Line 30 on tensors of shape \<open>[spp, N, 2]\<close> and \<open>[spp, N]\<close>: one centre per point.\<close>

definition pointc_multi :: "real \<Rightarrow> nat \<Rightarrow> point list list \<Rightarrow> real list list \<Rightarrow> point list" where
  "pointc_multi EPSILON N points ras =
     (let weighted = map2 (map2 pscale) points ras;
          den = map (\<lambda>s. s + EPSILON) (sum0 N ras)
      in map2 (\<lambda>(sx, sy) dn. (sx / dn, sy / dn))
           (zip (sum0 N (map (map fst) weighted)) (sum0 N (map (map snd) weighted))) den)"

text \<open>Lines 28--38 on the whole tensors.\<close>

definition splat_input_multi :: "real \<Rightarrow> nat \<Rightarrow> ray_sample list list \<Rightarrow> real \<Rightarrow> int \<Rightarrow> point option \<Rightarrow> point list list \<times> real list list" where
  "splat_input_multi EPSILON N rows ps ks pointc_ref =
     (let points = map (map flip_point) rows;
          points_shift = (case pointc_ref of
                            None \<Rightarrow> map (\<lambda>row. map2 psub row (pointc_multi EPSILON N points (map (map ray_ra) rows))) points
                          | Some c \<Rightarrow> map (map (\<lambda>p. psub p c)) points);
          ra = map2 (map2 (mask_ra ps ks)) (map (map ray_ra) rows) points_shift
      in (map2 (map2 pscale) points_shift ra, ra))"

text \<open>Slicing \<^verbatim>\<open>t[:, i]\<close>.\<close>

definition column :: "nat \<Rightarrow> 'a list list \<Rightarrow> 'a list" where
  "column i rows = map (\<lambda>row. row ! i) rows"

text \<open>The loop of lines 47--53 appends one grid per point; the first exception ends it.\<close>

fun collect :: "(nat \<Rightarrow> error + 'a) \<Rightarrow> nat list \<Rightarrow> error + 'a list" where
  "collect f [] = Inr []"
| "collect f (i # js) =
     (case f i of
        Inl e \<Rightarrow> Inl e
      | Inr v \<Rightarrow> (case collect f js of Inl e \<Rightarrow> Inl e | Inr vs \<Rightarrow> Inr (v # vs)))"

definition forward_integral_multi :: "real \<Rightarrow> nat \<Rightarrow> ray_sample list list \<Rightarrow> real \<Rightarrow> int \<Rightarrow> point option \<Rightarrow> error + grid list" where
  "forward_integral_multi EPSILON N rows ps ks pointc_ref =
     (case splat_input_multi EPSILON N rows ps ks pointc_ref of (points_shift, ra) \<Rightarrow>
        and_then
          (collect (\<lambda>i.
             if pointc_ref = None \<and> rows \<noteq> [] \<and> sum0 N (map (map ray_ra) rows) ! i + EPSILON = 0
             then Inl NonFinite
             else assign_points_to_pixels (column i points_shift) ks (psf_range ps ks) (psf_range ps ks)
                    (column i ra) True False None None (Some (map obliquity (column i rows))) 0.589)
           [0..<N])
          (\<lambda>psf. if psf = [] then Inl EmptyStack else Inr psf))"

subsubsection \<open>The function\<close>

text \<open>
  \<^verbatim>\<open>forward_integral(ray, ps, ks, pointc_ref=None, interpolate=False)\<close>. Both calls of
  the splatter (lines 43 and 52) pass \<open>points\<close>, \<open>ks\<close>, \<open>x_range\<close>, \<open>y_range\<close>, \<open>ra\<close> and
  \<open>obliq\<close>; every other parameter of the splatter keeps its default
  (\<open>interpolate=True\<close>, \<open>coherent=False\<close>, \<open>phase=None\<close>, \<open>d=None\<close>, \<open>wvln=0.589\<close>).
\<close>

definition forward_integral :: "real \<Rightarrow> ray \<Rightarrow> real \<Rightarrow> int \<Rightarrow> point option \<Rightarrow> bool \<Rightarrow> error + psf" where
  "forward_integral EPSILON ray ps ks pointc_ref interpolate =
     (case ray of
        SinglePoint samples \<Rightarrow>
          and_then (forward_integral_single EPSILON samples ps ks pointc_ref) (\<lambda>g. Inr (Psf g))
      | MultiPoint N rows \<Rightarrow>
          and_then (forward_integral_multi EPSILON N rows ps ks pointc_ref) (\<lambda>gs. Inr (PsfStack gs)))"

subsection \<open>Notions the properties are stated with\<close>

text \<open>The total energy of a real grid.\<close>

definition grid_sum :: "real list list \<Rightarrow> real" where
  "grid_sum g = sum_list (map sum_list g)"

text \<open>An index pair inside the \<open>ks \<times> ks\<close> grid: both components in \<open>[0, ks - 1]\<close>.\<close>

definition in_grid :: "int \<Rightarrow> int \<times> int \<Rightarrow> bool" where
  "in_grid ks ij = (0 \<le> fst ij \<and> fst ij \<le> ks - 1 \<and> 0 \<le> snd ij \<and> snd ij \<le> ks - 1)"

definition square :: "nat \<Rightarrow> 'a list list \<Rightarrow> bool" where
  "square n g = (length g = n \<and> list_all (\<lambda>row. length row = n) g)"

definition nonneg_grid :: "real list list \<Rightarrow> bool" where
  "nonneg_grid g = list_all (list_all (\<lambda>v. 0 \<le> v)) g"

text \<open>
  The index pairs a call of the splatter accumulates into (lines 94--97 with
  interpolation, line 116 without).
\<close>

definition lattice_indices :: "point list \<Rightarrow> int \<Rightarrow> real \<times> real \<Rightarrow> real \<times> real \<Rightarrow> bool \<Rightarrow> (int \<times> int) list" where
  "lattice_indices points ks x_range y_range interpolate =
     (let pif = pixel_indices_float (normalize_points points x_range y_range) ks
      in if interpolate
         then pixel_indices_tl pif @ pixel_indices_tr pif @ pixel_indices_bl pif @ pixel_indices_br pif
         else pixel_indices_tl pif)"

text \<open>The four value tensors of lines 109--112, for weights as long as the points.\<close>

definition share_tl :: "point list \<Rightarrow> real list \<Rightarrow> real list" where
  "share_tl pif ra = map2 (*) (map2 (*) (one_minus (w_b pif)) (one_minus (w_r pif))) ra"

definition share_tr :: "point list \<Rightarrow> real list \<Rightarrow> real list" where
  "share_tr pif ra = map2 (*) (map2 (*) (one_minus (w_b pif)) (w_r pif)) ra"

definition share_bl :: "point list \<Rightarrow> real list \<Rightarrow> real list" where
  "share_bl pif ra = map2 (*) (map2 (*) (w_b pif) (one_minus (w_r pif))) ra"

definition share_br :: "point list \<Rightarrow> real list \<Rightarrow> real list" where
  "share_br pif ra = map2 (*) (map2 (*) (w_b pif) (w_r pif)) ra"

text \<open>
  Fractional index coordinates all four of whose corner cells lie in the grid: both in
  \<open>[0, ks - 1)\<close>.
\<close>

definition inside :: "int \<Rightarrow> point \<Rightarrow> bool" where
  "inside ks rc = (0 \<le> fst rc \<and> fst rc < of_int (ks - 1) \<and> 0 \<le> snd rc \<and> snd rc < of_int (ks - 1))"

text \<open>Lines 37--38 for one ray: the shifted point times its masked weight.\<close>

definition masked_point :: "real \<Rightarrow> int \<Rightarrow> real \<Rightarrow> point \<Rightarrow> point" where
  "masked_point ps ks a p = pscale p (mask_ra ps ks a p)"

text \<open>
  The \<open>points\<close> and \<open>ra\<close> arguments of every call of the splatter that
  \<^verbatim>\<open>forward_integral\<close> makes (line 43, or line 52 once per point).
\<close>

definition splat_calls :: "real \<Rightarrow> ray \<Rightarrow> real \<Rightarrow> int \<Rightarrow> point option \<Rightarrow> (point list \<times> real list) list" where
  "splat_calls EPSILON ray ps ks pointc_ref =
     (case ray of
        SinglePoint samples \<Rightarrow> [splat_input_single EPSILON samples ps ks pointc_ref]
      | MultiPoint N rows \<Rightarrow>
          (case splat_input_multi EPSILON N rows ps ks pointc_ref of (points_shift, ra) \<Rightarrow>
             map (\<lambda>i. (column i points_shift, column i ra)) [0..<N]))"

text \<open>
  The number of points of a bundle and the rays of its point \<open>i\<close>; call \<open>i\<close> of the
  splatter receives what lines 28--38 make of them.
\<close>

definition n_points :: "ray \<Rightarrow> nat" where
  "n_points ray = (case ray of SinglePoint samples \<Rightarrow> 1 | MultiPoint N rows \<Rightarrow> N)"

definition point_rays :: "ray \<Rightarrow> nat \<Rightarrow> ray_sample list" where
  "point_rays ray i = (case ray of SinglePoint samples \<Rightarrow> samples | MultiPoint N rows \<Rightarrow> column i rows)"

text \<open>
  The shifted point of ray \<open>k\<close> among the rays of one point, before masking (lines 31
  and 34).
\<close>

definition shifted_sample :: "real \<Rightarrow> ray_sample list \<Rightarrow> point option \<Rightarrow> nat \<Rightarrow> point" where
  "shifted_sample EPSILON samples pointc_ref k =
     psub (flip_point (samples ! k)) (center_single EPSILON samples pointc_ref)"






text \<open>
  An operation on grids that keeps the shape and commutes with every later
  accumulation.
\<close>

definition grid_op :: "nat \<Rightarrow> (real list list \<Rightarrow> real list list) \<Rightarrow> bool" where
  "grid_op n F =
     (\<forall>g. square n g \<longrightarrow>
        square n (F g)
        \<and> (\<forall>idx vs. index_put (F g) idx vs = and_then (index_put g idx vs) (\<lambda>g'. Inr (F g'))))"

subsection \<open>Concrete inputs\<close>

text \<open>
  A small positive value for \<open>EPSILON\<close> and a few rays for the concrete calls below: \<open>ray_q\<close> lies
  off the lattice, \<open>ray_b\<close> outside the window of a \<open>4 \<times> 4\<close> kernel at pixel size 1,
  \<open>ray_edge\<close> exactly on its border and \<open>ray_near\<close> 0.02 pixels inside it, \<open>ray_z\<close> has
  weight zero.
\<close>

definition EPS :: real where "EPS = 1 / 10 ^ 9"

definition ray_a :: ray_sample where "ray_a = \<lparr>ray_o = (1/4, -1/2, 0), ray_d = (0, 0, 1), ray_ra = 1\<rparr>"

definition ray_b :: ray_sample where "ray_b = \<lparr>ray_o = (-3, 0, 0), ray_d = (0, 0, 1), ray_ra = 1/2\<rparr>"

definition ray_c :: ray_sample where "ray_c = \<lparr>ray_o = (0, 2/5, 0), ray_d = (0, 0, 1), ray_ra = 1/2\<rparr>"

definition ray_z :: ray_sample where "ray_z = \<lparr>ray_o = (1/3, 2/5, 0), ray_d = (0, 0, 1), ray_ra = 0\<rparr>"

definition ray_q :: ray_sample where "ray_q = \<lparr>ray_o = (-1/4, -1/4, 0), ray_d = (0, 0, 1), ray_ra = 1\<rparr>"



section \<open>Auxiliary facts\<close>

subsection \<open>Results and broadcasting\<close>

lemma and_then_Inr [simp]: "and_then (Inr v) f = f v"
  by (simp add: and_then_def)

lemma and_then_Inl [simp]: "and_then (Inl e) f = Inl e"
  by (simp add: and_then_def)

lemma bmul_same_length: "length xs = length ys \<Longrightarrow> bmul xs ys = Inr (map2 (*) xs ys)"
  by (simp add: bmul_def)

lemma broadcast_to_same_length: "length vs = n \<Longrightarrow> broadcast_to n vs = Inr vs"
  by (simp add: broadcast_to_def)

lemma wrap_index_in_range: "0 \<le> i \<Longrightarrow> i < int n \<Longrightarrow> wrap_index n i = Some (nat i)"
  by (simp add: wrap_index_def)

subsection \<open>Grids and accumulation\<close>

lemma square_zeros: "0 \<le> ks \<Longrightarrow> square (nat ks) (zeros ks :: 'a::zero list list)"
  by (simp add: square_def zeros_def list_all_length)

lemma grid_sum_zeros: "grid_sum (zeros ks) = 0"
  by (simp add: grid_sum_def zeros_def sum_list_replicate)

lemma nonneg_zeros: "nonneg_grid (zeros ks)"
  by (simp add: nonneg_grid_def zeros_def list_all_length)

lemma square_update:
  "square n g \<Longrightarrow> i < n \<Longrightarrow> square n (g[i := (g ! i)[j := v]])"
  by (auto simp: square_def list_all_length nth_list_update)

lemma sum_list_update_add:
  fixes xs :: "real list"
  shows "j < length xs \<Longrightarrow> sum_list (xs[j := xs ! j + v]) = sum_list xs + v"
  by (induction xs arbitrary: j) (auto split: nat.splits)

lemma grid_sum_update:
  assumes "square n g" "i < n" "j < n"
  shows "grid_sum (g[i := (g ! i)[j := g ! i ! j + v]]) = grid_sum g + v"
proof -
  have len: "i < length g" "j < length (g ! i)"
    using assms by (auto simp: square_def list_all_length)
  have "map sum_list (g[i := (g ! i)[j := g ! i ! j + v]]) = (map sum_list g)[i := sum_list (g ! i) + v]"
    using len by (simp add: map_update sum_list_update_add)
  moreover have "sum_list ((map sum_list g)[i := sum_list (g ! i) + v]) = sum_list (map sum_list g) + v"
    using len sum_list_update_add[of i "map sum_list g" v] by simp
  ultimately show ?thesis by (simp add: grid_sum_def)
qed

lemma nonneg_update:
  assumes "nonneg_grid g" "i < length g" "j < length (g ! i)" "0 \<le> v"
  shows "nonneg_grid (g[i := (g ! i)[j := g ! i ! j + v]])"
  using assms by (auto simp: nonneg_grid_def list_all_length nth_list_update)

lemma accumulate_in_grid:
  fixes g :: "real list list"
  assumes "square n g" "length vs = length idx" "list_all (in_grid (int n)) idx"
  shows "\<exists>g'. accumulate g idx vs = Inr g' \<and> square n g' \<and> grid_sum g' = grid_sum g + sum_list vs
           \<and> (nonneg_grid g \<and> list_all (\<lambda>v. 0 \<le> v) vs \<longrightarrow> nonneg_grid g')"
  using assms
proof (induction idx arbitrary: g vs)
  case Nil
  then show ?case by simp
next
  case (Cons rc idx)
  obtain r c where rc: "rc = (r, c)" by (cases rc)
  obtain v vs' where vs: "vs = v # vs'" using Cons.prems(2) by (cases vs) auto
  have r: "0 \<le> r" "r < int n" and c: "0 \<le> c" "c < int n"
    using Cons.prems(3) by (auto simp: rc in_grid_def)
  have len: "length g = n" "length (g ! nat r) = n"
    using Cons.prems(1) r by (auto simp: square_def list_all_length)
  let ?g = "g[nat r := (g ! nat r)[nat c := g ! nat r ! nat c + v]]"
  have step: "accumulate g (rc # idx) vs = accumulate ?g idx vs'"
    using r c len by (simp add: rc vs wrap_index_in_range)
  have sq: "square n ?g" using Cons.prems(1) r by (intro square_update) auto
  have sm: "grid_sum ?g = grid_sum g + v"
    using Cons.prems(1) r c by (intro grid_sum_update) auto
  have nn: "nonneg_grid g \<Longrightarrow> 0 \<le> v \<Longrightarrow> nonneg_grid ?g"
    using r c len by (intro nonneg_update) auto
  from Cons.IH[OF sq, of vs'] Cons.prems vs
  obtain g' where g': "accumulate ?g idx vs' = Inr g'" "square n g'"
      "grid_sum g' = grid_sum ?g + sum_list vs'"
      "nonneg_grid ?g \<and> list_all (\<lambda>v. 0 \<le> v) vs' \<longrightarrow> nonneg_grid g'"
    by auto
  show ?case
    using g' step sm nn by (auto simp: vs)
qed

lemma index_put_in_grid:
  fixes g :: "real list list"
  assumes "square n g" "length vs = length idx" "list_all (in_grid (int n)) idx"
  shows "\<exists>g'. index_put g idx vs = Inr g' \<and> square n g' \<and> grid_sum g' = grid_sum g + sum_list vs
           \<and> (nonneg_grid g \<and> list_all (\<lambda>v. 0 \<le> v) vs \<longrightarrow> nonneg_grid g')"
  using accumulate_in_grid[OF assms] assms(2)
  by (simp add: index_put_def broadcast_to_same_length)

subsection \<open>The four bilinear shares\<close>

lemmas share_defs = share_tl_def share_tr_def share_bl_def share_br_def

lemma length_weights [simp]:
  "length (w_b pif) = length pif" "length (w_r pif) = length pif"
  "length (one_minus ws) = length ws"
  by (simp_all add: w_b_def w_r_def one_minus_def)

lemma length_indices [simp]:
  "length (pixel_indices_tl pif) = length pif" "length (pixel_indices_tr pif) = length pif"
  "length (pixel_indices_bl pif) = length pif" "length (pixel_indices_br pif) = length pif"
  by (simp_all add: pixel_indices_tl_def pixel_indices_tr_def pixel_indices_bl_def pixel_indices_br_def)

lemma length_shares [simp]:
  "length ra = length pif \<Longrightarrow> length (share_tl pif ra) = length pif"
  "length ra = length pif \<Longrightarrow> length (share_tr pif ra) = length pif"
  "length ra = length pif \<Longrightarrow> length (share_bl pif ra) = length pif"
  "length ra = length pif \<Longrightarrow> length (share_br pif ra) = length pif"
  by (simp_all add: share_defs)

lemma shares_Cons:
  "share_tl ((r, c) # pif) (a # ra) = (1 - (r - of_int \<lfloor>r\<rfloor>)) * (1 - (c - of_int \<lfloor>c\<rfloor>)) * a # share_tl pif ra"
  "share_tr ((r, c) # pif) (a # ra) = (1 - (r - of_int \<lfloor>r\<rfloor>)) * (c - of_int \<lfloor>c\<rfloor>) * a # share_tr pif ra"
  "share_bl ((r, c) # pif) (a # ra) = (r - of_int \<lfloor>r\<rfloor>) * (1 - (c - of_int \<lfloor>c\<rfloor>)) * a # share_bl pif ra"
  "share_br ((r, c) # pif) (a # ra) = (r - of_int \<lfloor>r\<rfloor>) * (c - of_int \<lfloor>c\<rfloor>) * a # share_br pif ra"
  by (simp_all add: share_defs w_b_def w_r_def one_minus_def)

lemma shares_Nil:
  "share_tl [] ra = []" "share_tr [] ra = []" "share_bl [] ra = []" "share_br [] ra = []"
  by (simp_all add: share_defs w_b_def w_r_def one_minus_def)

lemma shares_sum:
  "length ra = length pif \<Longrightarrow>
   sum_list (share_tl pif ra) + sum_list (share_tr pif ra) + sum_list (share_bl pif ra)
     + sum_list (share_br pif ra) = sum_list ra"
proof (induction pif arbitrary: ra)
  case Nil
  then show ?case by (simp add: shares_Nil)
next
  case (Cons p pif)
  obtain r c where p: "p = (r, c)" by (cases p)
  obtain a ra' where ra: "ra = a # ra'" using Cons.prems by (cases ra) auto
  have "length ra' = length pif" using Cons.prems ra by simp
  from Cons.IH[OF this] show ?case
    by (simp add: p ra shares_Cons algebra_simps)
qed

lemma shares_nonneg:
  assumes "length ra = length pif" "list_all (\<lambda>a. 0 \<le> a) ra"
  shows "list_all (\<lambda>v. 0 \<le> v) (share_tl pif ra)" "list_all (\<lambda>v. 0 \<le> v) (share_tr pif ra)"
        "list_all (\<lambda>v. 0 \<le> v) (share_bl pif ra)" "list_all (\<lambda>v. 0 \<le> v) (share_br pif ra)"
  using assms
proof (induction pif arbitrary: ra)
  case Nil
  { case 1 show ?case by (simp add: shares_Nil) }
  { case 2 show ?case by (simp add: shares_Nil) }
  { case 3 show ?case by (simp add: shares_Nil) }
  { case 4 show ?case by (simp add: shares_Nil) }
next
  case (Cons p pif)
  obtain r c where p: "p = (r, c)" by (cases p)
  have fr: "0 \<le> r - of_int \<lfloor>r\<rfloor>" "0 \<le> 1 - (r - of_int \<lfloor>r\<rfloor>)"
           "0 \<le> c - of_int \<lfloor>c\<rfloor>" "0 \<le> 1 - (c - of_int \<lfloor>c\<rfloor>)"
    by linarith+
  { case 1
    then obtain a ra' where ra: "ra = a # ra'" by (cases ra) auto
    with 1 Cons.IH(1)[of ra'] fr show ?case by (simp add: p shares_Cons) }
  { case 2
    then obtain a ra' where ra: "ra = a # ra'" by (cases ra) auto
    with 2 Cons.IH(2)[of ra'] fr show ?case by (simp add: p shares_Cons) }
  { case 3
    then obtain a ra' where ra: "ra = a # ra'" by (cases ra) auto
    with 3 Cons.IH(3)[of ra'] fr show ?case by (simp add: p shares_Cons) }
  { case 4
    then obtain a ra' where ra: "ra = a # ra'" by (cases ra) auto
    with 4 Cons.IH(4)[of ra'] fr show ?case by (simp add: p shares_Cons) }
qed

lemma splat_incoherent_shares:
  assumes "length ra = length pif"
  shows "splat_incoherent ks pif ra =
     and_then (index_put (zeros ks) (pixel_indices_tl pif) (share_tl pif ra)) (\<lambda>g1.
     and_then (index_put g1 (pixel_indices_tr pif) (share_tr pif ra)) (\<lambda>g2.
     and_then (index_put g2 (pixel_indices_bl pif) (share_bl pif ra)) (\<lambda>g3.
     and_then (index_put g3 (pixel_indices_br pif) (share_br pif ra)) (\<lambda>g4.
     Inr (RealGrid g4)))))"
  using assms by (simp add: splat_incoherent_def bmul_same_length share_defs)

lemma splat_incoherent_in_grid:
  assumes ks: "0 \<le> ks" and len: "length ra = length pif"
    and tl: "list_all (in_grid ks) (pixel_indices_tl pif)"
    and tr: "list_all (in_grid ks) (pixel_indices_tr pif)"
    and bl: "list_all (in_grid ks) (pixel_indices_bl pif)"
    and br: "list_all (in_grid ks) (pixel_indices_br pif)"
  shows "\<exists>g. splat_incoherent ks pif ra = Inr (RealGrid g) \<and> square (nat ks) g
           \<and> grid_sum g = sum_list ra \<and> (list_all (\<lambda>a. 0 \<le> a) ra \<longrightarrow> nonneg_grid g)"
proof -
  have n: "int (nat ks) = ks" using ks by simp
  note sh = shares_nonneg[OF len]
  obtain g1 where g1: "index_put (zeros ks) (pixel_indices_tl pif) (share_tl pif ra) = Inr g1"
      "square (nat ks) g1" "grid_sum g1 = sum_list (share_tl pif ra)"
      "list_all (\<lambda>a. 0 \<le> a) ra \<longrightarrow> nonneg_grid g1"
    using index_put_in_grid[OF square_zeros[OF ks], of "share_tl pif ra" "pixel_indices_tl pif"]
      tl len sh(1) ks by (auto simp: grid_sum_zeros nonneg_zeros)
  obtain g2 where g2: "index_put g1 (pixel_indices_tr pif) (share_tr pif ra) = Inr g2"
      "square (nat ks) g2" "grid_sum g2 = grid_sum g1 + sum_list (share_tr pif ra)"
      "list_all (\<lambda>a. 0 \<le> a) ra \<longrightarrow> nonneg_grid g2"
    using index_put_in_grid[OF g1(2), of "share_tr pif ra" "pixel_indices_tr pif"]
      tr len sh(2) g1(4) ks by auto
  obtain g3 where g3: "index_put g2 (pixel_indices_bl pif) (share_bl pif ra) = Inr g3"
      "square (nat ks) g3" "grid_sum g3 = grid_sum g2 + sum_list (share_bl pif ra)"
      "list_all (\<lambda>a. 0 \<le> a) ra \<longrightarrow> nonneg_grid g3"
    using index_put_in_grid[OF g2(2), of "share_bl pif ra" "pixel_indices_bl pif"]
      bl len sh(3) g2(4) ks by auto
  obtain g4 where g4: "index_put g3 (pixel_indices_br pif) (share_br pif ra) = Inr g4"
      "square (nat ks) g4" "grid_sum g4 = grid_sum g3 + sum_list (share_br pif ra)"
      "list_all (\<lambda>a. 0 \<le> a) ra \<longrightarrow> nonneg_grid g4"
    using index_put_in_grid[OF g3(2), of "share_br pif ra" "pixel_indices_br pif"]
      br len sh(4) g3(4) ks by auto
  have "splat_incoherent ks pif ra = Inr (RealGrid g4)"
    by (simp add: splat_incoherent_shares[OF len] g1(1) g2(1) g3(1) g4(1))
  moreover have "grid_sum g4 = sum_list ra"
    using shares_sum[OF len] g1(3) g2(3) g3(3) g4(3) by simp
  ultimately show ?thesis using g4(2,4) by blast
qed

lemma splat_nearest_in_grid:
  assumes ks: "0 \<le> ks" and len: "length ra = length pif"
    and tl: "list_all (in_grid ks) (pixel_indices_tl pif)"
  shows "\<exists>g. splat_nearest ks pif ra = Inr (RealGrid g) \<and> square (nat ks) g
           \<and> grid_sum g = sum_list ra \<and> (list_all (\<lambda>a. 0 \<le> a) ra \<longrightarrow> nonneg_grid g)"
proof -
  have n: "int (nat ks) = ks" using ks by simp
  obtain g where g: "index_put (zeros ks) (pixel_indices_tl pif) ra = Inr g"
      "square (nat ks) g" "grid_sum g = sum_list ra"
      "list_all (\<lambda>a. 0 \<le> a) ra \<longrightarrow> nonneg_grid g"
    using index_put_in_grid[OF square_zeros[OF ks], of ra "pixel_indices_tl pif"] tl len ks
    by (auto simp: grid_sum_zeros nonneg_zeros)
  then show ?thesis by (simp add: splat_nearest_def)
qed

subsection \<open>The splatter on indices inside the grid\<close>

lemma lattice_indices_nearest:
  "lattice_indices points ks x_range y_range False =
     pixel_indices_tl (pixel_indices_float (normalize_points points x_range y_range) ks)"
  by (simp add: lattice_indices_def)

lemma lattice_indices_interpolated:
  "list_all P (lattice_indices points ks x_range y_range True) \<longleftrightarrow>
     (let pif = pixel_indices_float (normalize_points points x_range y_range) ks
      in list_all P (pixel_indices_tl pif) \<and> list_all P (pixel_indices_tr pif)
         \<and> list_all P (pixel_indices_bl pif) \<and> list_all P (pixel_indices_br pif))"
  by (simp add: lattice_indices_def Let_def)

lemma length_pixel_indices_float [simp]:
  "length (pixel_indices_float (normalize_points points x_range y_range) ks) = length points"
  by (cases x_range; cases y_range) (simp add: pixel_indices_float_def normalize_points_def)

lemma assign_incoherent_in_grid:
  assumes ks: "2 \<le> ks" and xr: "fst x_range \<noteq> snd x_range" and yr: "fst y_range \<noteq> snd y_range"
    and len: "length ra = length points"
    and idx: "list_all (in_grid ks) (lattice_indices points ks x_range y_range interpolate)"
  shows "\<exists>g. assign_points_to_pixels points ks x_range y_range ra interpolate False phase d obliq wvln
                = Inr (RealGrid g)
           \<and> square (nat ks) g \<and> grid_sum g = sum_list ra
           \<and> (list_all (\<lambda>a. 0 \<le> a) ra \<longrightarrow> nonneg_grid g)"
proof -
  let ?pif = "pixel_indices_float (normalize_points points x_range y_range) ks"
  have len': "length ra = length ?pif" using len by simp
  have ks0: "0 \<le> ks" using ks by simp
  have unfold: "assign_points_to_pixels points ks x_range y_range ra interpolate False phase d obliq wvln
      = (if interpolate then splat_incoherent ks ?pif ra else splat_nearest ks ?pif ra)"
    using ks xr yr by (cases x_range; cases y_range) (auto simp: assign_points_to_pixels_def Let_def)
  show ?thesis
  proof (cases interpolate)
    case True
    with idx have "list_all (in_grid ks) (pixel_indices_tl ?pif)" "list_all (in_grid ks) (pixel_indices_tr ?pif)"
      "list_all (in_grid ks) (pixel_indices_bl ?pif)" "list_all (in_grid ks) (pixel_indices_br ?pif)"
      by (simp_all add: lattice_indices_interpolated Let_def)
    from splat_incoherent_in_grid[OF ks0 len' this] show ?thesis
      unfolding unfold using True by simp
  next
    case False
    with idx have "list_all (in_grid ks) (pixel_indices_tl ?pif)"
      by (simp add: lattice_indices_nearest)
    from splat_nearest_in_grid[OF ks0 len' this] show ?thesis
      unfolding unfold using False by simp
  qed
qed

subsection \<open>The window of the integrator\<close>

lemma map2_map_map: "map2 f (map g xs) (map h xs) = map (\<lambda>x. f (g x) (h x)) xs"
  by (induction xs) auto

lemma index_float_window:
  assumes "ps \<noteq> 0" "ks \<noteq> 1"
  shows "pixel_indices_float (normalize_points pts (psf_range ps ks) (psf_range ps ks)) ks
         = map (\<lambda>(x, y). ((of_int ks - 1) / 2 - y / ps, (of_int ks - 1) / 2 + x / ps)) pts"
proof -
  have k: "of_int ks - (1::real) \<noteq> 0" using assms(2) by simp
  have "\<And>x y. (y - (of_int ks / 2 - 1 / 2) * ps) / ((- of_int ks / 2 + 1 / 2) * ps - (of_int ks / 2 - 1 / 2) * ps) * (of_int ks - 1)
        = (of_int ks - 1) / 2 - y / ps"
    using assms(1) k by (simp add: field_simps)
  moreover have "\<And>x y. (x - (- of_int ks / 2 + 1 / 2) * ps) / ((of_int ks / 2 - 1 / 2) * ps - (- of_int ks / 2 + 1 / 2) * ps) * (of_int ks - 1)
        = (of_int ks - 1) / 2 + x / ps"
    using assms(1) k by (simp add: field_simps)
  ultimately show ?thesis
    by (simp add: pixel_indices_float_def normalize_points_def psf_range_def split_def)
qed

lemma corners_in_grid:
  assumes "inside ks (r, c)"
  shows "in_grid ks (\<lfloor>r\<rfloor>, \<lfloor>c\<rfloor>)" "in_grid ks (\<lfloor>r\<rfloor>, \<lfloor>c + 1\<rfloor>)"
        "in_grid ks (\<lfloor>r + 1\<rfloor>, \<lfloor>c\<rfloor>)" "in_grid ks (\<lfloor>r\<rfloor> + 1, \<lfloor>c\<rfloor> + 1)"
        "in_grid ks (\<lfloor>r\<rfloor>, \<lfloor>c\<rfloor> + 1)" "in_grid ks (\<lfloor>r\<rfloor> + 1, \<lfloor>c\<rfloor>)"
proof -
  have "0 \<le> \<lfloor>r\<rfloor>" "\<lfloor>r\<rfloor> < ks - 1" "0 \<le> \<lfloor>c\<rfloor>" "\<lfloor>c\<rfloor> < ks - 1"
    using assms by (simp_all add: inside_def floor_less_iff)
  then show "in_grid ks (\<lfloor>r\<rfloor>, \<lfloor>c\<rfloor>)" "in_grid ks (\<lfloor>r\<rfloor>, \<lfloor>c + 1\<rfloor>)"
        "in_grid ks (\<lfloor>r + 1\<rfloor>, \<lfloor>c\<rfloor>)" "in_grid ks (\<lfloor>r\<rfloor> + 1, \<lfloor>c\<rfloor> + 1)"
        "in_grid ks (\<lfloor>r\<rfloor>, \<lfloor>c\<rfloor> + 1)" "in_grid ks (\<lfloor>r\<rfloor> + 1, \<lfloor>c\<rfloor>)"
    by (simp_all add: in_grid_def)
qed

lemma inside_lattice_indices:
  assumes "list_all (inside ks) (pixel_indices_float (normalize_points pts xr yr) ks)"
  shows "list_all (in_grid ks) (lattice_indices pts ks xr yr interpolate)"
proof -
  have "list_all (inside ks) pif \<Longrightarrow>
          list_all (in_grid ks) (pixel_indices_tl pif) \<and> list_all (in_grid ks) (pixel_indices_tr pif)
        \<and> list_all (in_grid ks) (pixel_indices_bl pif) \<and> list_all (in_grid ks) (pixel_indices_br pif)" for pif
    by (induction pif)
       (auto simp: pixel_indices_tl_def pixel_indices_tr_def pixel_indices_bl_def pixel_indices_br_def
          corners_in_grid)
  from this[OF assms] show ?thesis
    by (simp add: lattice_indices_def Let_def)
qed

lemma masked_point_inside:
  assumes ks: "2 \<le> ks" and ps: "ps \<noteq> 0" and a: "\<bar>a\<bar> \<le> 1"
  shows "inside ks ((of_int ks - 1) / 2 - snd (masked_point ps ks a p) / ps,
                    (of_int ks - 1) / 2 + fst (masked_point ps ks a p) / ps)"
proof -
  let ?lim = "snd (psf_range ps ks) - 0.01 * ps"
  have k: "(2::real) \<le> of_int ks" using ks by simp
  have limeq: "?lim = ps * ((of_int ks - 1) / 2 - 1 / 100)"
    by (simp add: psf_range_def algebra_simps)
  show ?thesis
  proof (cases "\<bar>fst p\<bar> < ?lim \<and> \<bar>snd p\<bar> < ?lim")
    case True
    then have "0 < ps * ((of_int ks - 1) / 2 - 1 / 100)" unfolding limeq[symmetric] by linarith
    moreover have "0 < (of_int ks - 1) / 2 - (1::real) / 100" using k by simp
    ultimately have pos: "0 < ps" by (simp add: zero_less_mult_iff)
    have lim: "?lim / ps = (of_int ks - 1) / 2 - 1 / 100"
      unfolding limeq using pos by simp
    have bound: "\<bar>t * a\<bar> / ps < (of_int ks - 1) / 2 - 1 / 100" if "\<bar>t\<bar> < ?lim" for t
    proof -
      have "\<bar>t * a\<bar> \<le> \<bar>t\<bar>" using a by (simp add: abs_mult mult_left_le)
      then have "\<bar>t * a\<bar> < ?lim" using that by linarith
      then have "\<bar>t * a\<bar> / ps < ?lim / ps" using pos by (simp add: divide_strict_right_mono)
      then show ?thesis using lim by simp
    qed
    have m: "masked_point ps ks a p = (fst p * a, snd p * a)"
      using True by (simp add: masked_point_def mask_ra_def pscale_def)
    define u where "u = fst p * a / ps"
    define v where "v = snd p * a / ps"
    have "\<bar>u\<bar> = \<bar>fst p * a\<bar> / ps" "\<bar>v\<bar> = \<bar>snd p * a\<bar> / ps"
      using pos by (simp_all add: u_def v_def abs_divide)
    then have uv: "\<bar>u\<bar> < (of_int ks - 1) / 2 - 1 / 100" "\<bar>v\<bar> < (of_int ks - 1) / 2 - 1 / 100"
      using bound[of "fst p"] bound[of "snd p"] True by simp_all
    have "0 \<le> (of_int ks - 1) / 2 - v" "(of_int ks - 1) / 2 - v < of_int ks - 1"
         "0 \<le> (of_int ks - 1) / 2 + u" "(of_int ks - 1) / 2 + u < of_int ks - 1"
      by (insert uv) argo+
    then show ?thesis
      unfolding m inside_def fst_conv snd_conv u_def v_def by simp
  next
    case False
    then have m: "masked_point ps ks a p = (0, 0)"
      by (auto simp: masked_point_def mask_ra_def pscale_def)
    show ?thesis using k by (simp add: m inside_def)
  qed
qed

lemma splat_input_single_eq:
  "splat_input_single EPSILON samples ps ks pointc_ref =
     (map (\<lambda>s. masked_point ps ks (ray_ra s) (psub (flip_point s) (center_single EPSILON samples pointc_ref))) samples,
      map (\<lambda>s. mask_ra ps ks (ray_ra s) (psub (flip_point s) (center_single EPSILON samples pointc_ref))) samples)"
  by (simp add: splat_input_single_def Let_def map2_map_map masked_point_def)

lemma splat_input_single_inside:
  assumes "2 \<le> ks" "ps \<noteq> 0" "list_all (\<lambda>s. \<bar>ray_ra s\<bar> \<le> 1) samples"
  shows "list_all (inside ks)
           (pixel_indices_float (normalize_points (fst (splat_input_single EPSILON samples ps ks pointc_ref))
              (psf_range ps ks) (psf_range ps ks)) ks)"
proof -
  have "ks \<noteq> 1" using assms by auto
  from index_float_window[OF assms(2) this] show ?thesis
    using assms(3) masked_point_inside[OF assms(1,2)]
    by (simp add: splat_input_single_eq list_all_iff split_def)
qed

subsection \<open>Columns of the multi-point layout\<close>

lemma length_sum0:
  "list_all (\<lambda>row. length row = N) rows \<Longrightarrow> length (sum0 N rows) = N"
  by (induction rows) (simp_all add: sum0_def)

lemma sum0_nth:
  "list_all (\<lambda>row. length row = N) rows \<Longrightarrow> i < N \<Longrightarrow> sum0 N rows ! i = sum_list (column i rows)"
proof (induction rows)
  case Nil
  then show ?case by (simp add: sum0_def column_def)
next
  case (Cons row rows)
  have "sum0 N (row # rows) = map2 (+) row (sum0 N rows)" by (simp add: sum0_def)
  moreover have "length (sum0 N rows) = N" "length row = N"
    using Cons.prems(1) by (simp_all add: length_sum0)
  ultimately show ?case using Cons by (simp add: column_def)
qed

lemma column_map_map: "column i (map (map f) rows) = map (\<lambda>row. f (row ! i)) rows"
  if "list_all (\<lambda>row. i < length row) rows"
  using that by (induction rows) (simp_all add: column_def)

lemma pointc_multi_nth:
  assumes wf: "list_all (\<lambda>row. length row = N) rows" and i: "i < N"
  shows "pointc_multi EPSILON N (map (map flip_point) rows) (map (map ray_ra) rows) ! i
         = pointc_single EPSILON (map flip_point (column i rows)) (map ray_ra (column i rows))"
    and "length (pointc_multi EPSILON N (map (map flip_point) rows) (map (map ray_ra) rows)) = N"
proof -
  let ?w = "map (map (\<lambda>s. pscale (flip_point s) (ray_ra s))) rows"
  have w: "map2 (map2 pscale) (map (map flip_point) rows) (map (map ray_ra) rows) = ?w"
    by (simp add: map2_map_map)
  have wf2: "list_all (\<lambda>row. length row = N) (map (map f) rows)" for f :: "ray_sample \<Rightarrow> real"
    using wf by (simp add: list_all_iff)
  have lt: "list_all (\<lambda>row. i < length row) rows" using wf i by (simp add: list_all_iff)
  have sx: "sum0 N (map (map f) rows) ! i = sum_list (map (\<lambda>row. f (row ! i)) rows)" for f :: "ray_sample \<Rightarrow> real"
    using sum0_nth[OF wf2 i, of f] column_map_map[OF lt, of f] by simp
  have len: "length (sum0 N (map (map f) rows)) = N" for f :: "ray_sample \<Rightarrow> real"
    using length_sum0[OF wf2] .
  have mm: "map (map fst) ?w = map (map (\<lambda>s. fst (pscale (flip_point s) (ray_ra s)))) rows"
           "map (map snd) ?w = map (map (\<lambda>s. snd (pscale (flip_point s) (ray_ra s)))) rows"
    by (simp_all add: comp_def)
  show "length (pointc_multi EPSILON N (map (map flip_point) rows) (map (map ray_ra) rows)) = N"
    unfolding pointc_multi_def Let_def w mm by (simp add: len)
  show "pointc_multi EPSILON N (map (map flip_point) rows) (map (map ray_ra) rows) ! i
         = pointc_single EPSILON (map flip_point (column i rows)) (map ray_ra (column i rows))"
    unfolding pointc_multi_def pointc_single_def Let_def w mm
    using i by (simp add: len sx column_def map2_map_map comp_def)
qed

lemma center_column:
  assumes wf: "list_all (\<lambda>row. length row = N) rows" and i: "i < N"
  shows "(case pointc_ref of
            None \<Rightarrow> pointc_multi EPSILON N (map (map flip_point) rows) (map (map ray_ra) rows) ! i
          | Some c \<Rightarrow> c) = center_single EPSILON (column i rows) pointc_ref"
  using pointc_multi_nth(1)[OF wf i] by (simp add: center_single_def split: option.splits)

lemma splat_input_multi_column:
  assumes wf: "list_all (\<lambda>row. length row = N) rows" and i: "i < N"
  shows "column i (fst (splat_input_multi EPSILON N rows ps ks pointc_ref))
           = fst (splat_input_single EPSILON (column i rows) ps ks pointc_ref)"
    and "column i (snd (splat_input_multi EPSILON N rows ps ks pointc_ref))
           = snd (splat_input_single EPSILON (column i rows) ps ks pointc_ref)"
proof -
  let ?pc = "pointc_multi EPSILON N (map (map flip_point) rows) (map (map ray_ra) rows)"
  let ?c = "center_single EPSILON (column i rows) pointc_ref"
  define g where "g = (\<lambda>row. case pointc_ref of
                         None \<Rightarrow> map2 psub (map flip_point row) ?pc
                       | Some c \<Rightarrow> map (\<lambda>p. psub p c) (map flip_point row))"
  have shift: "(case pointc_ref of
                  None \<Rightarrow> map (\<lambda>row. map2 psub row ?pc) (map (map flip_point) rows)
                | Some c \<Rightarrow> map (map (\<lambda>p. psub p c)) (map (map flip_point) rows)) = map g rows"
    by (simp add: g_def split: option.splits)
  have lenpc: "length ?pc = N" using pointc_multi_nth(2)[OF wf i] .
  have grow: "length (g row) = N \<and> g row ! i = psub (flip_point (row ! i)) ?c" if "row \<in> set rows" for row
  proof -
    have l: "length row = N" using wf that by (simp add: list_all_iff)
    show ?thesis
    proof (cases pointc_ref)
      case None
      then show ?thesis
        using l i lenpc pointc_multi_nth(1)[OF wf i, of EPSILON]
        by (simp add: g_def center_single_def)
    next
      case (Some c)
      then show ?thesis using l i by (simp add: g_def center_single_def)
    qed
  qed
  have fst_eq: "fst (splat_input_multi EPSILON N rows ps ks pointc_ref)
      = map (\<lambda>row. map2 pscale (g row) (map2 (mask_ra ps ks) (map ray_ra row) (g row))) rows"
    and snd_eq: "snd (splat_input_multi EPSILON N rows ps ks pointc_ref)
      = map (\<lambda>row. map2 (mask_ra ps ks) (map ray_ra row) (g row)) rows"
    unfolding splat_input_multi_def Let_def shift by (simp_all add: map2_map_map)
  have elt: "map2 (mask_ra ps ks) (map ray_ra row) (g row) ! i = mask_ra ps ks (ray_ra (row ! i)) (psub (flip_point (row ! i)) ?c)
           \<and> map2 pscale (g row) (map2 (mask_ra ps ks) (map ray_ra row) (g row)) ! i
             = masked_point ps ks (ray_ra (row ! i)) (psub (flip_point (row ! i)) ?c)"
    if "row \<in> set rows" for row
  proof -
    have l: "length row = N" using wf that by (simp add: list_all_iff)
    show ?thesis using grow[OF that] l i by (simp add: masked_point_def)
  qed
  show "column i (fst (splat_input_multi EPSILON N rows ps ks pointc_ref))
           = fst (splat_input_single EPSILON (column i rows) ps ks pointc_ref)"
    unfolding fst_eq splat_input_single_eq using elt by (simp add: column_def)
  show "column i (snd (splat_input_multi EPSILON N rows ps ks pointc_ref))
           = snd (splat_input_single EPSILON (column i rows) ps ks pointc_ref)"
    unfolding snd_eq splat_input_single_eq using elt by (simp add: column_def)
qed

lemma collect_cong:
  "(\<And>i. i \<in> set xs \<Longrightarrow> f i = h i) \<Longrightarrow> collect f xs = collect h xs"
  by (induction xs) (simp_all split: sum.splits)

lemma collect_Inr_iff:
  "collect f xs = Inr vs \<longleftrightarrow> length vs = length xs \<and> (\<forall>k<length xs. f (xs ! k) = Inr (vs ! k))"
proof (induction xs arbitrary: vs)
  case Nil
  then show ?case by auto
next
  case (Cons x xs)
  show ?case
  proof (cases vs)
    case Nil
    then show ?thesis by (auto split: sum.splits)
  next
    case (Cons v vs')
    have "(\<forall>k<Suc (length xs). f ((x # xs) ! k) = Inr ((v # vs') ! k))
          \<longleftrightarrow> f x = Inr v \<and> (\<forall>k<length xs. f (xs ! k) = Inr (vs' ! k))"
      by (auto simp: nth_Cons split: nat.splits)
    then show ?thesis using Cons.IH[of vs'] Cons
      by (auto split: sum.splits)
  qed
qed

lemma forward_integral_multi_columns:
  assumes wf: "list_all (\<lambda>row. length row = N) rows"
  shows "forward_integral_multi EPSILON N rows ps ks pointc_ref =
           and_then (collect (\<lambda>i. forward_integral_single EPSILON (column i rows) ps ks pointc_ref) [0..<N])
             (\<lambda>psf. if psf = [] then Inl EmptyStack else Inr psf)"
proof -
  have "(if pointc_ref = None \<and> rows \<noteq> [] \<and> sum0 N (map (map ray_ra) rows) ! i + EPSILON = 0
         then Inl NonFinite
         else assign_points_to_pixels (column i (fst (splat_input_multi EPSILON N rows ps ks pointc_ref))) ks
                (psf_range ps ks) (psf_range ps ks)
                (column i (snd (splat_input_multi EPSILON N rows ps ks pointc_ref)))
                True False None None (Some (map obliquity (column i rows))) 0.589)
        = forward_integral_single EPSILON (column i rows) ps ks pointc_ref" if "i \<in> set [0..<N]" for i
  proof -
    have i: "i < N" using that by simp
    have wf2: "list_all (\<lambda>row. length row = N) (map (map ray_ra) rows)"
      using wf by (simp add: list_all_iff)
    have lt: "list_all (\<lambda>row. i < length row) rows" using wf i by (simp add: list_all_iff)
    have "sum0 N (map (map ray_ra) rows) ! i = sum_list (map (\<lambda>row. ray_ra (row ! i)) rows)"
      using sum0_nth[OF wf2 i] column_map_map[OF lt, of ray_ra] by simp
    then have s: "sum0 N (map (map ray_ra) rows) ! i = sum_list (map ray_ra (column i rows))"
      by (simp add: column_def comp_def)
    have e: "rows \<noteq> [] \<longleftrightarrow> column i rows \<noteq> []" by (simp add: column_def)
    show ?thesis
      unfolding forward_integral_single_def splat_input_multi_column[OF wf i] s e
      by (simp add: split_def)
  qed
  from collect_cong[of "[0..<N]", OF this] show ?thesis
    unfolding forward_integral_multi_def by (simp add: split_def)
qed

subsection \<open>The integrator returns a grid\<close>

lemma psf_range_nondegenerate:
  "2 \<le> ks \<Longrightarrow> ps \<noteq> 0 \<Longrightarrow> fst (psf_range ps ks) \<noteq> snd (psf_range ps ks)"
proof -
  assume "2 \<le> ks" "ps \<noteq> 0"
  then have "(of_int ks - 1) * ps \<noteq> 0" by simp
  moreover have "snd (psf_range ps ks) - fst (psf_range ps ks) = (of_int ks - 1) * ps"
    by (simp add: psf_range_def algebra_simps)
  ultimately show ?thesis by auto
qed

lemma mask_ra_nonneg: "0 \<le> a \<Longrightarrow> 0 \<le> mask_ra ps ks a p"
  by (simp add: mask_ra_def)

lemma forward_integral_single_returns:
  assumes ks: "2 \<le> ks" and ps: "ps \<noteq> 0"
    and guard: "pointc_ref = None \<Longrightarrow> samples \<noteq> [] \<Longrightarrow> sum_list (map ray_ra samples) + EPSILON \<noteq> 0"
    and w: "list_all (\<lambda>s. 0 \<le> ray_ra s \<and> ray_ra s \<le> 1) samples"
  shows "\<exists>g. forward_integral_single EPSILON samples ps ks pointc_ref = Inr (RealGrid g)
           \<and> square (nat ks) g \<and> nonneg_grid g
           \<and> grid_sum g = sum_list (snd (splat_input_single EPSILON samples ps ks pointc_ref))"
proof -
  let ?in = "splat_input_single EPSILON samples ps ks pointc_ref"
  have abs: "list_all (\<lambda>s. \<bar>ray_ra s\<bar> \<le> 1) samples" using w by (auto simp: list_all_iff)
  have idx: "list_all (in_grid ks) (lattice_indices (fst ?in) ks (psf_range ps ks) (psf_range ps ks) True)"
    by (rule inside_lattice_indices[OF splat_input_single_inside[OF ks ps abs]])
  have len: "length (snd ?in) = length (fst ?in)" by (simp add: splat_input_single_eq)
  have nn: "list_all (\<lambda>a. 0 \<le> a) (snd ?in)"
    using w by (auto simp: splat_input_single_eq list_all_iff mask_ra_nonneg)
  have nd: "fst (psf_range ps ks) \<noteq> snd (psf_range ps ks)"
    by (rule psf_range_nondegenerate[OF ks ps])
  have ok: "\<not> (pointc_ref = None \<and> samples \<noteq> [] \<and> sum_list (map ray_ra samples) + EPSILON = 0)"
    using guard by blast
  from assign_incoherent_in_grid[OF ks nd nd len idx, of None None "Some (map obliquity samples)" "0.589"] nn
  show ?thesis
    unfolding forward_integral_single_def using ok by (auto simp: split_def)
qed

lemma column_weights:
  assumes "list_all (\<lambda>row. length row = N) rows" "i < N" "list_all (list_all P) rows"
  shows "list_all P (column i rows)"
  using assms by (auto simp: column_def list_all_iff)

subsection \<open>Grids of total energy zero\<close>

lemma zero_grid:
  assumes "square n g" "nonneg_grid g" "grid_sum g = 0"
  shows "g = replicate n (replicate n 0)"
proof -
  have rows_nn: "0 \<le> sum_list row" if "row \<in> set g" for row
    using assms(2) that by (intro sum_list_nonneg) (auto simp: nonneg_grid_def list_all_iff)
  have "sum_list (map sum_list g) = 0" using assms(3) by (simp add: grid_sum_def)
  then have "\<forall>s\<in>set (map sum_list g). s = 0"
    using rows_nn by (subst (asm) sum_list_nonneg_eq_0_iff) auto
  then have row0: "sum_list row = 0" if "row \<in> set g" for row using that by auto
  have rows: "row = replicate n 0" if "row \<in> set g" for row
  proof -
    have nn: "\<And>v. v \<in> set row \<Longrightarrow> 0 \<le> v"
      using assms(2) that by (auto simp: nonneg_grid_def list_all_iff)
    then have "\<forall>v\<in>set row. v = 0"
      using row0[OF that] by (subst (asm) sum_list_nonneg_eq_0_iff) auto
    moreover have "length row = n" using assms(1) that by (auto simp: square_def list_all_iff)
    ultimately show ?thesis by (intro replicate_eqI) auto
  qed
  show ?thesis
  proof (rule replicate_eqI)
    show "length g = n" using assms(1) by (simp add: square_def)
  next
    fix row assume "row \<in> set g"
    then show "row = replicate n 0" by (rule rows)
  qed
qed

lemma forward_integral_single_zero:
  assumes ks: "2 \<le> ks" and ps: "ps \<noteq> 0" and eps: "EPSILON \<noteq> 0"
    and w: "list_all (\<lambda>s. ray_ra s = 0) samples"
  shows "forward_integral_single EPSILON samples ps ks pointc_ref = Inr (RealGrid (zeros ks))"
proof -
  have w': "list_all (\<lambda>s. 0 \<le> ray_ra s \<and> ray_ra s \<le> 1) samples"
    using w by (auto simp: list_all_iff)
  have "sum_list (map ray_ra samples) = 0" using w by (induction samples) auto
  then have guard: "sum_list (map ray_ra samples) + EPSILON \<noteq> 0" using eps by simp
  obtain g where g: "forward_integral_single EPSILON samples ps ks pointc_ref = Inr (RealGrid g)"
      "square (nat ks) g" "nonneg_grid g"
      "grid_sum g = sum_list (snd (splat_input_single EPSILON samples ps ks pointc_ref))"
    using forward_integral_single_returns[OF ks ps guard w'] by blast
  have "snd (splat_input_single EPSILON samples ps ks pointc_ref) = map (\<lambda>s. 0) samples"
    using w by (auto simp: splat_input_single_eq mask_ra_def list_all_iff)
  then have "grid_sum g = 0" using g(4) by simp
  from zero_grid[OF g(2,3) this] g(1) show ?thesis by (simp add: zeros_def)
qed

lemma collect_replicate:
  "(\<And>i. i \<in> set xs \<Longrightarrow> f i = Inr v) \<Longrightarrow> collect f xs = Inr (replicate (length xs) v)"
  by (induction xs) simp_all

subsection \<open>A grid of shape [0, 0] accepts no index\<close>




subsection \<open>A sample of weight zero adds nothing\<close>














subsection \<open>A sample adds its four shares\<close>


lemma and_then_return [simp]: "and_then r Inr = r"
  by (cases r) simp_all









lemma grid_op_id: "grid_op n (\<lambda>g. g)"
  by (simp add: grid_op_def)









subsection \<open>The calls of the splatter, point by point\<close>

lemma splat_calls_nth:
  assumes "well_shaped ray" "i < n_points ray"
  shows "splat_calls EPSILON ray ps ks pointc_ref ! i
         = splat_input_single EPSILON (point_rays ray i) ps ks pointc_ref"
    and "length (splat_calls EPSILON ray ps ks pointc_ref) = n_points ray"
proof -
  show "length (splat_calls EPSILON ray ps ks pointc_ref) = n_points ray"
    by (cases ray) (simp_all add: splat_calls_def n_points_def split_def)
  show "splat_calls EPSILON ray ps ks pointc_ref ! i
         = splat_input_single EPSILON (point_rays ray i) ps ks pointc_ref"
  proof (cases ray)
    case (SinglePoint samples)
    then show ?thesis using assms(2) by (simp add: splat_calls_def n_points_def point_rays_def)
  next
    case (MultiPoint N rows)
    have wf: "list_all (\<lambda>row. length row = N) rows" and i: "i < N"
      using assms by (simp_all add: MultiPoint well_shaped_def n_points_def)
    show ?thesis
      using i splat_input_multi_column[OF wf i, of EPSILON ps ks pointc_ref]
      by (simp add: MultiPoint splat_calls_def point_rays_def split_def prod_eq_iff)
  qed
qed

section \<open>The properties\<close>

subsection \<open>The \<open>interpolate\<close> flag of the integrator\<close>

text \<open>
  C1. \<^verbatim>\<open>forward_integral\<close> is documented to take \<open>interpolate\<close> as "whether to
  interpolate the PSF", and is claimed to forward it to the splatter. It does not: neither
  call of the splatter passes the flag, so the splatter always runs with its default
  \<open>interpolate=True\<close> and the result is the same for both values of the flag. For one
  ray with origin \<open>(-1/4, -1/4, 0)\<close> and weight 1, \<open>ps = 1\<close>, \<open>ks = 2\<close> and the
  reference centre \<open>(0, 0)\<close>, the call with \<open>interpolate=False\<close> returns the bilinear
  splat over all four cells, whereas the non-interpolated rasterisation of the very
  sample the splatter receives puts the whole weight in one cell.
\<close>

theorem forward_integral_ignores_interpolate:
  "forward_integral EPSILON ray ps ks pointc_ref True = forward_integral EPSILON ray ps ks pointc_ref False
   \<and> forward_integral EPS (SinglePoint [ray_q]) 1 2 (Some (0, 0)) False
     = Inr (Psf (RealGrid [[3/16, 9/16], [1/16, 3/16]]))
   \<and> splat_input_single EPS [ray_q] 1 2 (Some (0, 0)) = ([(1/4, 1/4)], [1])
   \<and> assign_points_to_pixels [(1/4, 1/4)] 2 (psf_range 1 2) (psf_range 1 2) [1] False False None None None 0.589
     = Inr (RealGrid [[1, 0], [0, 0]])"
proof (intro conjI)
  show "forward_integral EPSILON ray ps ks pointc_ref True = forward_integral EPSILON ray ps ks pointc_ref False"
    by (simp add: forward_integral_def)
  show "forward_integral EPS (SinglePoint [ray_q]) 1 2 (Some (0, 0)) False
          = Inr (Psf (RealGrid [[3/16, 9/16], [1/16, 3/16]]))"
    by code_simp
  show "splat_input_single EPS [ray_q] 1 2 (Some (0, 0)) = ([(1/4, 1/4)], [1])"
    by code_simp
  show "assign_points_to_pixels [(1/4, 1/4)] 2 (psf_range 1 2) (psf_range 1 2) [1] False False None None None 0.589
          = Inr (RealGrid [[1, 0], [0, 0]])"
    by code_simp
qed

subsection \<open>Energy conservation of the splatter\<close>

text \<open>
  C2. In incoherent mode, when the two ranges are not degenerate, the weights are as many
  as the points and every lattice index the call computes lies in \<open>[0, ks - 1]\<close> on both
  axes, \<^verbatim>\<open>assign_points_to_pixels\<close> returns a grid, and the sum of its entries is the sum
  of the weights \<open>ra\<close>: without interpolation each weight goes wholly to one cell, with
  interpolation the four bilinear shares of a sample add up to its weight.
\<close>

theorem energy_conservation:
  assumes "2 \<le> ks" and "fst x_range \<noteq> snd x_range" and "fst y_range \<noteq> snd y_range"
    and "length ra = length points"
    and "list_all (in_grid ks) (lattice_indices points ks x_range y_range interpolate)"
  shows "\<exists>g. assign_points_to_pixels points ks x_range y_range ra interpolate False phase d obliq wvln
                = Inr (RealGrid g)
           \<and> grid_sum g = sum_list ra"
  using assign_incoherent_in_grid[OF assms] by blast

theorem energy_conservation_witness:
  "list_all (in_grid 2) (lattice_indices [(1/4, 1/4), (-3/10, 1/5)] 2 (-1/2, 1/2) (-1/2, 1/2) True)
   \<and> (\<exists>g. assign_points_to_pixels [(1/4, 1/4), (-3/10, 1/5)] 2 (-1/2, 1/2) (-1/2, 1/2) [1, 1/2]
              True False None None None 0.589 = Inr (RealGrid g)
          \<and> grid_sum g = 3/2)"
proof -
  have idx: "list_all (in_grid 2) (lattice_indices [(1/4, 1/4), (-3/10, 1/5)] 2 (-1/2, 1/2) (-1/2, 1/2) True)"
    by code_simp
  have "\<exists>g. assign_points_to_pixels [(1/4, 1/4), (-3/10, 1/5)] 2 (-1/2, 1/2) (-1/2, 1/2) [1, 1/2]
              True False None None None 0.589 = Inr (RealGrid g)
          \<and> grid_sum g = sum_list [1, 1/2]"
    by (rule energy_conservation[OF _ _ _ _ idx]) simp_all
  with idx show ?thesis by simp
qed

subsection \<open>What masking does to positions\<close>

text \<open>
  C4, as claimed: the coordinate passed to the splatter for a sample that survives
  masking with a weight \<open>w\<close> in \<open>(0, 1]\<close> is its extracted point minus the centre. This
  fails for \<open>w = 1/2\<close>: line 38 multiplies the shifted point by the masked weight, so
  the ray \<open>ray_c\<close>, shifted to \<open>(0, -2/5)\<close>, reaches the splatter at \<open>(0, -1/5)\<close>
  with its weight \<open>1/2\<close>.
\<close>

theorem masked_position_counterexample:
  "0 < snd (splat_calls EPS (SinglePoint [ray_c]) 1 4 (Some (0, 0)) ! 0) ! 0
   \<and> snd (splat_calls EPS (SinglePoint [ray_c]) 1 4 (Some (0, 0)) ! 0) ! 0 \<le> 1
   \<and> fst (splat_calls EPS (SinglePoint [ray_c]) 1 4 (Some (0, 0)) ! 0) ! 0
       \<noteq> shifted_sample EPS (point_rays (SinglePoint [ray_c]) 0) (Some (0, 0)) 0"
  by code_simp

text \<open>
  C4, amended: for every point \<open>i\<close> of a well-shaped bundle and every ray \<open>k\<close> of that
  point, the coordinate passed to the splatter is the ray's extracted point minus the
  chosen centre, multiplied by the ray's masked weight \<open>w\<close>. So it is the shifted point
  itself exactly when \<open>w = 1\<close> or the shifted point is \<open>(0, 0)\<close> (the ray's point is the
  centre), and it is \<open>(0, 0)\<close> when \<open>w = 0\<close> (an excluded ray).
\<close>

theorem masked_position_is_weighted_shift:
  assumes "well_shaped ray" and "i < n_points ray" and "k < length (point_rays ray i)"
  shows "fst (splat_calls EPSILON ray ps ks pointc_ref ! i) ! k
           = pscale (shifted_sample EPSILON (point_rays ray i) pointc_ref k)
               (snd (splat_calls EPSILON ray ps ks pointc_ref ! i) ! k)
         \<and> (fst (splat_calls EPSILON ray ps ks pointc_ref ! i) ! k
               = shifted_sample EPSILON (point_rays ray i) pointc_ref k
             \<longleftrightarrow> snd (splat_calls EPSILON ray ps ks pointc_ref ! i) ! k = 1
                 \<or> shifted_sample EPSILON (point_rays ray i) pointc_ref k = (0, 0))
         \<and> (snd (splat_calls EPSILON ray ps ks pointc_ref ! i) ! k = 0 \<longrightarrow>
               fst (splat_calls EPSILON ray ps ks pointc_ref ! i) ! k = (0, 0))"
proof -
  let ?p = "shifted_sample EPSILON (point_rays ray i) pointc_ref k"
  let ?call = "splat_input_single EPSILON (point_rays ray i) ps ks pointc_ref"
  have scaled: "fst ?call ! k = pscale ?p (snd ?call ! k)"
    using assms(3) by (simp add: splat_input_single_eq masked_point_def shifted_sample_def)
  have same: "pscale p w = p \<longleftrightarrow> w = 1 \<or> p = (0, 0)" for p :: point and w :: real
    by (cases p) (auto simp: pscale_def)
  have zero: "pscale p 0 = (0, 0)" for p :: point
    by (simp add: pscale_def)
  show ?thesis
    unfolding splat_calls_nth(1)[OF assms(1,2)] scaled using same zero by simp
qed

theorem masked_position_is_weighted_shift_witness:
  "well_shaped (MultiPoint 2 [[ray_a, ray_b], [ray_c, ray_a]])
   \<and> fst (splat_calls EPS (MultiPoint 2 [[ray_a, ray_b], [ray_c, ray_a]]) 1 4 None ! 0) ! 1
       = pscale (shifted_sample EPS (point_rays (MultiPoint 2 [[ray_a, ray_b], [ray_c, ray_a]]) 0) None 1) (1/2)
   \<and> fst (splat_calls EPS (MultiPoint 2 [[ray_a, ray_b], [ray_c, ray_a]]) 1 4 None ! 0) ! 0
       = shifted_sample EPS (point_rays (MultiPoint 2 [[ray_a, ray_b], [ray_c, ray_a]]) 0) None 0
   \<and> fst (splat_calls EPS (MultiPoint 2 [[ray_a, ray_b], [ray_c, ray_a]]) 1 4 (Some (0, 0)) ! 1) ! 0 = (0, 0)"
proof -
  let ?ray = "MultiPoint 2 [[ray_a, ray_b], [ray_c, ray_a]]"
  have h: "well_shaped ?ray" "0 < n_points ?ray" "1 < length (point_rays ?ray 0)"
          "0 < length (point_rays ?ray 0)" "1 < n_points ?ray" "0 < length (point_rays ?ray 1)"
    by code_simp+
  have w: "snd (splat_calls EPS ?ray 1 4 None ! 0) ! 1 = 1/2"
          "snd (splat_calls EPS ?ray 1 4 None ! 0) ! 0 = 1"
          "snd (splat_calls EPS ?ray 1 4 (Some (0, 0)) ! 1) ! 0 = 0"
    by code_simp+
  have "fst (splat_calls EPS ?ray 1 4 None ! 0) ! 1
          = pscale (shifted_sample EPS (point_rays ?ray 0) None 1) (1/2)"
    using masked_position_is_weighted_shift[OF h(1,2,3), of EPS 1 4 None] unfolding w by (rule conjunct1)
  moreover have "fst (splat_calls EPS ?ray 1 4 None ! 0) ! 0 = shifted_sample EPS (point_rays ?ray 0) None 0"
    using masked_position_is_weighted_shift[OF h(1,2,4), of EPS 1 4 None] w(2) by blast
  moreover have "fst (splat_calls EPS ?ray 1 4 (Some (0, 0)) ! 1) ! 0 = (0, 0)"
    using masked_position_is_weighted_shift[OF h(1,5,6), of EPS 1 4 "Some (0, 0)"] w(3) by blast
  ultimately show ?thesis using h(1) by blast
qed

subsection \<open>The masking threshold\<close>



subsection \<open>Independence of the points of a batch\<close>

text \<open>
  C6. For a well-shaped multi-point bundle of \<open>N\<close> points, \<^verbatim>\<open>forward_integral\<close> returns
  the stack \<open>gs\<close> exactly when \<open>N > 0\<close>, \<open>gs\<close> has \<open>N\<close> entries and entry \<open>i\<close> is what
  \<^verbatim>\<open>forward_integral\<close> returns for the single-point bundle made of the rays of point
  \<open>i\<close> alone (centering, masking and splatting included), for every \<open>i < N\<close>.
\<close>

theorem per_point_independence:
  assumes "well_shaped (MultiPoint N rows)"
  shows "forward_integral EPSILON (MultiPoint N rows) ps ks pointc_ref interpolate = Inr (PsfStack gs)
         \<longleftrightarrow> 0 < N \<and> length gs = N
             \<and> (\<forall>i<N. forward_integral EPSILON (SinglePoint (column i rows)) ps ks pointc_ref interpolate
                         = Inr (Psf (gs ! i)))"
proof -
  have wf: "list_all (\<lambda>row. length row = N) rows" using assms by (simp add: well_shaped_def)
  let ?f = "\<lambda>i. forward_integral_single EPSILON (column i rows) ps ks pointc_ref"
  have single: "forward_integral EPSILON (SinglePoint (column i rows)) ps ks pointc_ref interpolate = Inr (Psf g)
                  \<longleftrightarrow> ?f i = Inr g" for i g
    by (cases "?f i") (simp_all add: forward_integral_def)
  have "forward_integral EPSILON (MultiPoint N rows) ps ks pointc_ref interpolate = Inr (PsfStack gs)
          \<longleftrightarrow> collect ?f [0..<N] = Inr gs \<and> gs \<noteq> []"
    by (cases "collect ?f [0..<N]")
       (auto simp: forward_integral_def forward_integral_multi_columns[OF wf])
  also have "\<dots> \<longleftrightarrow> 0 < N \<and> length gs = N \<and> (\<forall>i<N. ?f i = Inr (gs ! i))"
    by (auto simp: collect_Inr_iff)
  finally show ?thesis by (simp add: single)
qed

theorem per_point_independence_witness:
  "well_shaped (MultiPoint 2 [[ray_a, ray_b], [ray_c, ray_a]])
   \<and> forward_integral EPS (SinglePoint (column 0 [[ray_a, ray_b], [ray_c, ray_a]])) 1 4 (Some (0, 0)) False
       = Inr (Psf (RealGrid [[0, 0, 0, 0], [0, 33/40, 13/40, 0], [0, 7/40, 7/40, 0], [0, 0, 0, 0]]))
   \<and> forward_integral EPS (SinglePoint (column 1 [[ray_a, ray_b], [ray_c, ray_a]])) 1 4 (Some (0, 0)) False
       = Inr (Psf (RealGrid [[0, 0, 0, 0], [0, 3/4, 1/4, 0], [0, 0, 0, 0], [0, 0, 0, 0]]))"
proof -
  let ?g0 = "RealGrid [[0, 0, 0, 0], [0, 33/40, 13/40, 0], [0, 7/40, 7/40, 0], [0, 0, 0, 0]]"
  let ?g1 = "RealGrid [[0, 0, 0, 0], [0, 3/4, 1/4, 0], [0, 0, 0, 0], [0, 0, 0, 0]]"
  let ?rows = "[[ray_a, ray_b], [ray_c, ray_a]]"
  have wf: "well_shaped (MultiPoint 2 ?rows)" by code_simp
  have m: "forward_integral EPS (MultiPoint 2 ?rows) 1 4 (Some (0, 0)) False = Inr (PsfStack [?g0, ?g1])"
    by code_simp
  have all: "\<forall>i<2. forward_integral EPS (SinglePoint (column i ?rows)) 1 4 (Some (0, 0)) False
                    = Inr (Psf ([?g0, ?g1] ! i))"
    using iffD1[OF per_point_independence[OF wf, where gs="[?g0, ?g1]"], OF m] by blast
  have "forward_integral EPS (SinglePoint (column 0 ?rows)) 1 4 (Some (0, 0)) False = Inr (Psf ([?g0, ?g1] ! 0))"
       "forward_integral EPS (SinglePoint (column 1 ?rows)) 1 4 (Some (0, 0)) False = Inr (Psf ([?g0, ?g1] ! 1))"
    using all by simp_all
  with wf show ?thesis by simp
qed

subsection \<open>Degenerate inputs\<close>

text \<open>
  C7. For \<open>ks \<ge> 2\<close>: the splatter returns the all-zero \<open>ks \<times> ks\<close> grid for an empty
  sample set (real in incoherent mode, complex in coherent mode with an empty phase
  tensor); and, for a non-zero pixel size and a non-zero \<open>EPSILON\<close>, a bundle all of
  whose weights are zero makes \<^verbatim>\<open>forward_integral\<close> return the all-zero grid (one per
  point in the multi-point layout): the centroid's divisor is \<open>EPSILON\<close>, not zero.
\<close>

theorem degenerate_inputs_give_zero_grid:
  assumes "2 \<le> ks"
  shows "assign_points_to_pixels [] ks x_range y_range [] interpolate False phase d obliq wvln
           = Inr (RealGrid (zeros ks))
         \<and> assign_points_to_pixels [] ks x_range y_range [] True True (Some []) d obliq wvln
           = Inr (ComplexGrid (zeros ks))
         \<and> (ps \<noteq> 0 \<and> EPSILON \<noteq> 0 \<and> list_all (\<lambda>s. ray_ra s = 0) samples \<longrightarrow>
              forward_integral EPSILON (SinglePoint samples) ps ks pointc_ref flag
                = Inr (Psf (RealGrid (zeros ks))))
         \<and> (ps \<noteq> 0 \<and> EPSILON \<noteq> 0 \<and> 0 < N \<and> well_shaped (MultiPoint N rows)
              \<and> list_all (list_all (\<lambda>s. ray_ra s = 0)) rows \<longrightarrow>
              forward_integral EPSILON (MultiPoint N rows) ps ks pointc_ref flag
                = Inr (PsfStack (replicate N (RealGrid (zeros ks)))))"
proof (intro conjI impI)
  have e: "index_put g [] [] = Inr g" for g :: "'a::plus list list"
    by (simp add: index_put_def broadcast_to_def)
  have b: "bmul [] [] = Inr ([] :: 'a::times list)" by (simp add: bmul_def)
  have nil: "w_b [] = []" "w_r [] = []" "one_minus [] = []"
    "pixel_indices_tl [] = []" "pixel_indices_tr [] = []" "pixel_indices_bl [] = []" "pixel_indices_br [] = []"
    by (simp_all add: w_b_def w_r_def one_minus_def pixel_indices_tl_def pixel_indices_tr_def
        pixel_indices_bl_def pixel_indices_br_def)
  have pif: "pixel_indices_float (normalize_points [] x_range y_range) ks = []"
    by (simp add: pixel_indices_float_def normalize_points_def split_def)
  show "assign_points_to_pixels [] ks x_range y_range [] interpolate False phase d obliq wvln
           = Inr (RealGrid (zeros ks))"
    using assms
    by (simp add: assign_points_to_pixels_def split_def pif splat_incoherent_def splat_nearest_def nil e b)
  show "assign_points_to_pixels [] ks x_range y_range [] True True (Some []) d obliq wvln
           = Inr (ComplexGrid (zeros ks))"
    using assms
    by (simp add: assign_points_to_pixels_def split_def pif splat_coherent_def with_phase_def nil e b)
next
  assume a: "ps \<noteq> 0 \<and> EPSILON \<noteq> 0 \<and> list_all (\<lambda>s. ray_ra s = 0) samples"
  then show "forward_integral EPSILON (SinglePoint samples) ps ks pointc_ref flag
                = Inr (Psf (RealGrid (zeros ks)))"
    using forward_integral_single_zero[OF assms, of ps EPSILON samples pointc_ref]
    by (simp add: forward_integral_def)
next
  assume a: "ps \<noteq> 0 \<and> EPSILON \<noteq> 0 \<and> 0 < N \<and> well_shaped (MultiPoint N rows)
              \<and> list_all (list_all (\<lambda>s. ray_ra s = 0)) rows"
  then have wf: "list_all (\<lambda>row. length row = N) rows" by (simp add: well_shaped_def)
  have "collect (\<lambda>i. forward_integral_single EPSILON (column i rows) ps ks pointc_ref) [0..<N]
          = Inr (replicate (length [0..<N]) (RealGrid (zeros ks)))"
  proof (rule collect_replicate)
    fix i assume "i \<in> set [0..<N]"
    then have "i < N" by simp
    from column_weights[OF wf this] a
    have "list_all (\<lambda>s. ray_ra s = 0) (column i rows)" by blast
    with a show "forward_integral_single EPSILON (column i rows) ps ks pointc_ref = Inr (RealGrid (zeros ks))"
      by (intro forward_integral_single_zero[OF assms]) auto
  qed
  with a show "forward_integral EPSILON (MultiPoint N rows) ps ks pointc_ref flag
                = Inr (PsfStack (replicate N (RealGrid (zeros ks))))"
    by (simp add: forward_integral_def forward_integral_multi_columns[OF wf])
qed

theorem degenerate_inputs_give_zero_grid_witness:
  "forward_integral EPS (SinglePoint [ray_z, ray_z]) 1 4 None False = Inr (Psf (RealGrid (zeros 4)))
   \<and> forward_integral EPS (MultiPoint 2 [[ray_z, ray_z]]) 1 4 None False
       = Inr (PsfStack [RealGrid (zeros 4), RealGrid (zeros 4)])"
proof -
  have h: "list_all (\<lambda>s. ray_ra s = 0) [ray_z, ray_z]" "well_shaped (MultiPoint 2 [[ray_z, ray_z]])"
          "list_all (list_all (\<lambda>s. ray_ra s = 0)) [[ray_z, ray_z]]" "EPS \<noteq> 0"
    by code_simp+
  have r: "replicate 2 (RealGrid (zeros 4)) = [RealGrid (zeros 4), RealGrid (zeros 4)]"
    by (simp add: numeral_2_eq_2)
  from degenerate_inputs_give_zero_grid[where ks=4 and ps=1 and EPSILON=EPS and samples="[ray_z, ray_z]"
         and N=2 and rows="[[ray_z, ray_z]]" and pointc_ref=None and flag=False] h r
  show ?thesis by simp
qed

subsection \<open>Kernel sizes below 2\<close>




subsection \<open>Arguments without effect\<close>

text \<open>
  C9. Two calls of \<^verbatim>\<open>assign_points_to_pixels\<close> that agree on \<open>points\<close>, \<open>ks\<close>, the two
  ranges, \<open>ra\<close>, \<open>interpolate\<close>, \<open>coherent\<close> and \<open>phase\<close> return the same result (the same
  grid, or the same error) whatever their \<open>d\<close>, \<open>obliq\<close> and \<open>wvln\<close> arguments are.
\<close>

theorem obliq_d_wvln_unused:
  "assign_points_to_pixels points ks x_range y_range ra interpolate coherent phase d obliq wvln
   = assign_points_to_pixels points ks x_range y_range ra interpolate coherent phase d' obliq' wvln'"
  by (simp add: assign_points_to_pixels_def)

subsection \<open>Non-negative incoherent output\<close>

text \<open>
  C10. In incoherent mode, with or without interpolation, when all weights \<open>ra\<close> are
  non-negative and every computed lattice index lies in the grid, the call returns a
  grid all of whose entries are non-negative.
\<close>

theorem incoherent_nonnegative:
  assumes "2 \<le> ks" and "fst x_range \<noteq> snd x_range" and "fst y_range \<noteq> snd y_range"
    and "length ra = length points"
    and "list_all (in_grid ks) (lattice_indices points ks x_range y_range interpolate)"
    and "list_all (\<lambda>a. 0 \<le> a) ra"
  shows "\<exists>g. assign_points_to_pixels points ks x_range y_range ra interpolate False phase d obliq wvln
                = Inr (RealGrid g)
           \<and> nonneg_grid g"
  using assign_incoherent_in_grid[OF assms(1-5)] assms(6) by blast

theorem incoherent_nonnegative_witness:
  "list_all (in_grid 3) (lattice_indices [(1/4, 1/4), (-3/10, 6/5)] 3 (-3/2, 3/2) (-3/2, 3/2) True)
   \<and> list_all (\<lambda>a. 0 \<le> a) [1, 0 :: real]
   \<and> (\<exists>g. assign_points_to_pixels [(1/4, 1/4), (-3/10, 6/5)] 3 (-3/2, 3/2) (-3/2, 3/2) [1, 0]
              True False None None None 0.589 = Inr (RealGrid g)
          \<and> nonneg_grid g)"
proof -
  have idx: "list_all (in_grid 3) (lattice_indices [(1/4, 1/4), (-3/10, 6/5)] 3 (-3/2, 3/2) (-3/2, 3/2) True)"
    by code_simp
  have nn: "list_all (\<lambda>a. 0 \<le> a) [1, 0 :: real]" by simp
  have "\<exists>g. assign_points_to_pixels [(1/4, 1/4), (-3/10, 6/5)] 3 (-3/2, 3/2) (-3/2, 3/2) [1, 0]
              True False None None None 0.589 = Inr (RealGrid g)
          \<and> nonneg_grid g"
    by (rule incoherent_nonnegative[OF _ _ _ _ idx nn]) simp_all
  with idx nn show ?thesis by simp
qed

end
